theory Spec2Isabelle
  imports Main
begin

section \<open>The package initializer \<^verbatim>\<open>src/__init__.py\<close>\<close>

text \<open>
  The repository is one file, the initializer of the package \<^verbatim>\<open>src\<close>:
  \<^verbatim>\<open>
   1  """
   2  Kaggle Competition Source Code Package
   3
   4  This package contains production-ready code for Kaggle competitions,
   5  organized into data, features, models, and utils modules.
   6  """
   7
   8  __version__ = "0.1.0"
   9  __author__ = "Kaggle Competitor"
  10
  11  # Import commonly used functions
  12  from .utils import set_seed, get_logger
  13
  14  __all__ = ["set_seed", "get_logger"]
  \<close>
  Its meaning is what running the module body does to the namespace of the package. The
  body is modelled as a list of statements, run in order on a namespace, stopping at the
  first exception; the namespace reached is kept in both outcomes, so that a failed
  initialization can be inspected. Each run also records what it did: the names it
  stored and the requests it made to the import system.
\<close>

subsection \<open>Values, namespaces, exceptions\<close>

text \<open>
  \<open>Str\<close> and \<open>ListV\<close> are Python's \<^verbatim>\<open>str\<close> and \<^verbatim>\<open>list\<close>. \<open>Obj i\<close> is an object of
  another module known by its identity \<open>i\<close> only (a function of \<^verbatim>\<open>utils\<close>, a loader):
  two names are bound to the same such object when they hold the same \<open>Obj i\<close>.
  \<open>ModuleV q\<close> is the module object of qualified name \<open>q\<close>.
\<close>

datatype pyval =
    Str string
  | ListV "pyval list"
  | NoneV
  | Obj nat
  | ModuleV string

text \<open>A namespace is a Python dict: keys in insertion order, each key once.\<close>

type_synonym namespace = "(string \<times> pyval) list"

text \<open>\<^verbatim>\<open>STORE_NAME\<close>: rebinding keeps the position of the key, a new key goes last.\<close>

fun store_name :: "string \<Rightarrow> pyval \<Rightarrow> namespace \<Rightarrow> namespace" where
  "store_name k v [] = [(k, v)]"
| "store_name k v ((k', v') # ns) =
     (if k' = k then (k, v) # ns else (k', v') # store_name k v ns)"

datatype pyexc =
    ModuleNotFoundError string
  | ImportError string string
  | OtherError string

subsection \<open>The import system, as far as the initializer uses it\<close>

text \<open>
  The module \<^verbatim>\<open>utils\<close> is not part of the given source, so what the import system
  answers for a qualified module name is a parameter of the model:
  \<^item> \<open>NotFound\<close>: there is no such module; the import raises \<^verbatim>\<open>ModuleNotFoundError\<close>;
  \<^item> \<open>LoadFailed e m\<close>: the module exists and was found, and its body raised \<open>e\<close> while
    it was loaded, after it had defined the names of \<open>m\<close>; the import raises \<open>e\<close> and
    delivers no module object;
  \<^item> \<open>Loaded m\<close>: the module was loaded by this import; \<open>m\<close> maps each name that
    \<^verbatim>\<open>from ... import\<close> can fetch from it to its object. The import system then also binds
    the submodule in the namespace of its parent package;
  \<^item> \<open>Cached m\<close>: the module was in \<^verbatim>\<open>sys.modules\<close> already; nothing is bound in the
    parent.

  Loading a module runs its body, which may import further siblings of the package; the
  import system binds each of them in the package too. The model leaves these further
  bindings out, so nothing below says that \<^verbatim>\<open>utils\<close> is the only submodule bound.
\<close>

datatype resolution =
    NotFound
  | LoadFailed pyexc namespace
  | Loaded namespace
  | Cached namespace

type_synonym import_system = "string \<Rightarrow> resolution"

text \<open>What \<^verbatim>\<open>IMPORT_FROM\<close> fetches from the module object that the import delivered.\<close>

fun module_attr :: "resolution \<Rightarrow> string \<Rightarrow> pyval option" where
  "module_attr NotFound n = None"
| "module_attr (LoadFailed e m) n = None"
| "module_attr (Loaded m) n = map_of m n"
| "module_attr (Cached m) n = map_of m n"

text \<open>The module can be resolved: it exists, whatever its loading does.\<close>

fun resolvable :: "resolution \<Rightarrow> bool" where
  "resolvable NotFound = False"
| "resolvable (LoadFailed e m) = True"
| "resolvable (Loaded m) = True"
| "resolvable (Cached m) = True"

fun load_failed :: "resolution \<Rightarrow> bool" where
  "load_failed (LoadFailed e m) = True"
| "load_failed NotFound = False"
| "load_failed (Loaded m) = False"
| "load_failed (Cached m) = False"

text \<open>The module defines the name: its body has bound it.\<close>

fun module_defines :: "resolution \<Rightarrow> string \<Rightarrow> bool" where
  "module_defines NotFound n = False"
| "module_defines (LoadFailed e m) n = (map_of m n \<noteq> None)"
| "module_defines (Loaded m) n = (map_of m n \<noteq> None)"
| "module_defines (Cached m) n = (map_of m n \<noteq> None)"


definition provides :: "resolution \<Rightarrow> string \<Rightarrow> bool" where
  "provides r n = (module_attr r n \<noteq> None)"

subsection \<open>Statements of the module body\<close>

text \<open>
  The expressions of the file are string literals and a list display of string literals.
  Its statements are the docstring, assignments of such expressions to a name, and one
  relative import \<^verbatim>\<open>from .M import n1, n2\<close>. Comment and blank lines are no statements.
\<close>

datatype expr =
    StrLit string
  | ListLit "expr list"

fun eval :: "expr \<Rightarrow> pyval" where
  "eval (StrLit s) = Str s"
| "eval (ListLit es) = ListV (map eval es)"

datatype stmt =
    Docstring string
  | Assign string expr
  | FromImport string "string list"

text \<open>
  What a run does, in order: \<open>Bind x\<close> for each \<^verbatim>\<open>STORE_NAME x\<close> of the body, and
  \<open>Import q\<close> for each request to the import system (\<^verbatim>\<open>IMPORT_NAME\<close>), for the module of
  qualified name \<open>q\<close>.
\<close>

datatype event =
    Bind string
  | Import string

datatype result =
    Done namespace "event list"
  | Raised pyexc namespace "event list"

fun succeeded :: "result \<Rightarrow> bool" where
  "succeeded (Done ns tr) = True"
| "succeeded (Raised e ns tr) = False"

fun final_ns :: "result \<Rightarrow> namespace" where
  "final_ns (Done ns tr) = ns"
| "final_ns (Raised e ns tr) = ns"

fun raised :: "result \<Rightarrow> pyexc option" where
  "raised (Done ns tr) = None"
| "raised (Raised e ns tr) = Some e"




text \<open>
  \<^verbatim>\<open>IMPORT_FROM n; STORE_NAME n\<close> for each imported name, left to right: a name is bound
  as soon as it is fetched, and the first name the module lacks raises \<^verbatim>\<open>ImportError\<close>.
\<close>

fun import_names ::
  "string \<Rightarrow> resolution \<Rightarrow> string list \<Rightarrow> namespace \<Rightarrow> event list \<Rightarrow> result" where
  "import_names q r [] ns tr = Done ns tr"
| "import_names q r (n # rest) ns tr =
     (case module_attr r n of
        None \<Rightarrow> Raised (ImportError n q) ns tr
      | Some v \<Rightarrow> import_names q r rest (store_name n v ns) (tr @ [Bind n]))"

text \<open>
  The qualified name of the sibling module \<open>M\<close> of package \<open>pkg\<close>. The package name is
  a parameter of a run: it is the name that the import system has stored as
  \<^verbatim>\<open>__package__\<close> in the namespace it prepared, where the relative import finds it.
\<close>

definition sibling :: "string \<Rightarrow> string \<Rightarrow> string" where
  "sibling pkg M = pkg @ ''.'' @ M"

definition prepared_for :: "string \<Rightarrow> namespace \<Rightarrow> bool" where
  "prepared_for pkg ns = (pkg \<noteq> [] \<and> map_of ns ''__package__'' = Some (Str pkg))"

text \<open>
  One statement. The docstring is stored as \<^verbatim>\<open>__doc__\<close>; an assignment evaluates its
  right-hand side and stores it; the import asks the import system for the sibling module
  first (\<^verbatim>\<open>IMPORT_NAME\<close>) and then fetches the names.
\<close>

fun exec_stmt ::
  "import_system \<Rightarrow> string \<Rightarrow> stmt \<Rightarrow> namespace \<Rightarrow> event list \<Rightarrow> result" where
  "exec_stmt I pkg (Docstring s) ns tr =
     Done (store_name ''__doc__'' (Str s) ns) (tr @ [Bind ''__doc__''])"
| "exec_stmt I pkg (Assign x e) ns tr = Done (store_name x (eval e) ns) (tr @ [Bind x])"
| "exec_stmt I pkg (FromImport M names) ns tr =
     (case I (sibling pkg M) of
        NotFound \<Rightarrow>
          Raised (ModuleNotFoundError (sibling pkg M)) ns (tr @ [Import (sibling pkg M)])
      | LoadFailed e m \<Rightarrow> Raised e ns (tr @ [Import (sibling pkg M)])
      | Loaded m \<Rightarrow>
          import_names (sibling pkg M) (Loaded m) names
            (store_name M (ModuleV (sibling pkg M)) ns) (tr @ [Import (sibling pkg M)])
      | Cached m \<Rightarrow>
          import_names (sibling pkg M) (Cached m) names ns (tr @ [Import (sibling pkg M)]))"

fun exec_body ::
  "import_system \<Rightarrow> string \<Rightarrow> stmt list \<Rightarrow> namespace \<Rightarrow> event list \<Rightarrow> result" where
  "exec_body I pkg [] ns tr = Done ns tr"
| "exec_body I pkg (s # ss) ns tr =
     (case exec_stmt I pkg s ns tr of
        Raised e ns' tr' \<Rightarrow> Raised e ns' tr'
      | Done ns' tr' \<Rightarrow> exec_body I pkg ss ns' tr')"

subsection \<open>The file\<close>

definition newline :: char where
  "newline = CHR 0x0A"

definition module_docstring :: string where
  "module_docstring = concat (map (\<lambda>l. l @ [newline])
     ['''',
      ''Kaggle Competition Source Code Package'',
      '''',
      ''This package contains production-ready code for Kaggle competitions,'',
      ''organized into data, features, models, and utils modules.''])"

definition init_body :: "stmt list" where
  "init_body =
     [Docstring module_docstring,
      Assign ''__version__'' (StrLit ''0.1.0''),
      Assign ''__author__'' (StrLit ''Kaggle Competitor''),
      FromImport ''utils'' [''set_seed'', ''get_logger''],
      Assign ''__all__'' (ListLit [StrLit ''set_seed'', StrLit ''get_logger''])]"

text \<open>
  Initializing the package \<open>pkg\<close>: the body runs on the namespace \<open>ns0\<close> that the import
  system has prepared for the new module.
\<close>

definition import_package :: "import_system \<Rightarrow> string \<Rightarrow> namespace \<Rightarrow> result" where
  "import_package I pkg ns0 = exec_body I pkg init_body ns0 []"

text \<open>
  A namespace as the import system prepares it for the package \<^verbatim>\<open>src\<close>, and a
  \<^verbatim>\<open>utils\<close> module that defines both functions, for the concrete runs below.
\<close>

definition fresh_namespace :: namespace where
  "fresh_namespace =
     [(''__name__'', Str ''src''),
      (''__doc__'', NoneV),
      (''__package__'', Str ''src''),
      (''__loader__'', Obj 0),
      (''__spec__'', Obj 1),
      (''__path__'', ListV [Str ''src'']),
      (''__file__'', Str ''src/__init__.py''),
      (''__cached__'', Str ''src/__pycache__/__init__.cpython-311.pyc''),
      (''__builtins__'', Obj 2)]"

definition utils_module :: namespace where
  "utils_module = [(''set_seed'', Obj 10), (''get_logger'', Obj 11)]"

definition first_import :: import_system where
  "first_import q = (if q = ''src.utils'' then Loaded utils_module else NotFound)"

text \<open>A \<^verbatim>\<open>utils\<close> module that defines \<^verbatim>\<open>set_seed\<close> and not \<^verbatim>\<open>get_logger\<close>.\<close>

definition half_utils :: import_system where
  "half_utils q = (if q = ''src.utils'' then Loaded [(''set_seed'', Obj 10)] else NotFound)"

definition no_utils :: import_system where
  "no_utils q = NotFound"

text \<open>
  A \<^verbatim>\<open>utils\<close> module that exists and defines both functions, and whose body then
  raises \<^verbatim>\<open>RuntimeError\<close>.
\<close>

definition raising_utils :: import_system where
  "raising_utils q =
     (if q = ''src.utils'' then LoadFailed (OtherError ''RuntimeError'') utils_module
      else NotFound)"

subsection \<open>The text of the file\<close>

text \<open>The lines of \<^verbatim>\<open>src/__init__.py\<close>; the last one has no line terminator.\<close>

definition source_lines :: "string list" where
  \<open>source_lines =
     [''"""'',
      ''Kaggle Competition Source Code Package'',
      '''',
      ''This package contains production-ready code for Kaggle competitions,'',
      ''organized into data, features, models, and utils modules.'',
      ''"""'',
      '''',
      ''__version__ = "0.1.0"'',
      ''__author__ = "Kaggle Competitor"'',
      '''',
      ''# Import commonly used functions'',
      ''from .utils import set_seed, get_logger'',
      '''',
      ''__all__ = ["set_seed", "get_logger"]'']\<close>

datatype line_kind =
    DocstringLine
  | MetadataLine
  | ImportLine
  | ExportLine
  | CommentLine
  | BlankLine
  | OtherLine

definition starts_with :: "string \<Rightarrow> string \<Rightarrow> bool" where
  "starts_with p s = (take (length p) s = p)"

fun contains :: "string \<Rightarrow> string \<Rightarrow> bool" where
  "contains p [] = (p = [])"
| "contains p (c # s) = (starts_with p (c # s) \<or> contains p s)"

definition triple_quote :: string where
  "triple_quote = [CHR 0x22, CHR 0x22, CHR 0x22]"

text \<open>The kind of a line that is outside a triple-quoted string.\<close>

definition code_line_kind :: "string \<Rightarrow> line_kind" where
  "code_line_kind l =
     (if dropWhile (\<lambda>c. c = CHR '' '') l = [] then BlankLine
      else if starts_with ''#'' l then CommentLine
      else if starts_with ''from '' l \<or> starts_with ''import '' l then ImportLine
      else if starts_with ''__all__ ='' l then ExportLine
      else if starts_with ''__version__ ='' l \<or> starts_with ''__author__ ='' l
        then MetadataLine
      else OtherLine)"

text \<open>
  The kinds of the lines of a file, top to bottom. The flag tells whether the line starts
  inside a triple-quoted string: every line from the opening quotes to the closing quotes
  belongs to the docstring.
\<close>

fun classify :: "bool \<Rightarrow> string list \<Rightarrow> line_kind list" where
  "classify inside [] = []"
| "classify inside (l # ls) =
     (if inside then DocstringLine # classify (\<not> contains triple_quote l) ls
      else if starts_with triple_quote l
        then DocstringLine # classify (\<not> contains triple_quote (drop 3 l)) ls
      else code_line_kind l # classify False ls)"

definition count_kind :: "line_kind \<Rightarrow> nat" where
  "count_kind k = length (filter (\<lambda>x. x = k) (classify False source_lines))"

subsection \<open>Reading the statements off the text\<close>













subsection \<open>Bindings that a run creates\<close>

text \<open>
  A name is bound by the run when the final namespace binds it and the initial namespace
  did not bind it to that value. \<open>is_str\<close> holds of a binding to a \<^verbatim>\<open>str\<close>, Python's
  immutable string type; lists and module objects are mutable. \<open>is_module\<close> holds of a
  binding to a module object.
\<close>

definition created :: "namespace \<Rightarrow> result \<Rightarrow> string \<Rightarrow> bool" where
  "created ns0 r k = (map_of (final_ns r) k \<noteq> None \<and> map_of (final_ns r) k \<noteq> map_of ns0 k)"

fun is_str :: "pyval option \<Rightarrow> bool" where
  "is_str (Some (Str s)) = True"
| "is_str _ = False"

fun is_module :: "pyval option \<Rightarrow> bool" where
  "is_module (Some (ModuleV q)) = True"
| "is_module _ = False"

section \<open>Properties\<close>

subsection \<open>Auxiliary facts\<close>

lemma map_of_store_name:
  "map_of (store_name k v ns) k' = (if k' = k then Some v else map_of ns k')"
  by (induction ns) auto


lemma classify_source_lines:
  "classify False source_lines =
     [DocstringLine, DocstringLine, DocstringLine, DocstringLine, DocstringLine,
      DocstringLine, BlankLine, MetadataLine, MetadataLine, BlankLine, CommentLine,
      ImportLine, BlankLine, ExportLine]"
  by (simp add: source_lines_def starts_with_def triple_quote_def code_line_kind_def)

lemmas run_defs = import_package_def init_body_def sibling_def
lemmas input_defs =
  first_import_def half_utils_def no_utils_def raising_utils_def utils_module_def
  fresh_namespace_def


subsection \<open>C1: what importing the package exposes\<close>




subsection \<open>C2: the export list\<close>

text \<open>
  C2: after a successful import, \<^verbatim>\<open>__all__\<close> is the two-element list
  \<^verbatim>\<open>["set_seed", "get_logger"]\<close>, in that order, with no other element.
\<close>

theorem export_list:
  "succeeded (import_package I pkg ns0) \<Longrightarrow>
   map_of (final_ns (import_package I pkg ns0)) ''__all__'' =
     Some (ListV [Str ''set_seed'', Str ''get_logger''])"
  by (simp add: import_package_def init_body_def map_of_store_name
      split: resolution.splits option.splits)

text \<open>
  C2 on a first import of the package \<^verbatim>\<open>src\<close>.
\<close>

theorem export_list_witness:
  "succeeded (import_package first_import ''src'' fresh_namespace) \<and>
   map_of (final_ns (import_package first_import ''src'' fresh_namespace)) ''__all__'' =
     Some (ListV [Str ''set_seed'', Str ''get_logger''])"
proof -
  have h: "succeeded (import_package first_import ''src'' fresh_namespace)"
    by (simp add: run_defs input_defs)
  show ?thesis by (rule conjI [OF h export_list [OF h]])
qed

subsection \<open>C3 and C4: the metadata attributes\<close>

text \<open>
  C3: the attribute \<^verbatim>\<open>__version__\<close> of the package is the string \<^verbatim>\<open>0.1.0\<close>. It is bound
  so in every run, whatever the import on line 12 does afterwards.
\<close>

theorem version_is_0_1_0:
  "map_of (final_ns (import_package I pkg ns0)) ''__version__'' = Some (Str ''0.1.0'')"
  by (simp add: import_package_def init_body_def map_of_store_name
      split: resolution.splits option.splits)

text \<open>
  C4: the attribute \<^verbatim>\<open>__author__\<close> of the package is the string
  \<^verbatim>\<open>Kaggle Competitor\<close>, again in every run.
\<close>

theorem author_is_kaggle_competitor:
  "map_of (final_ns (import_package I pkg ns0)) ''__author__'' =
     Some (Str ''Kaggle Competitor'')"
  by (simp add: import_package_def init_body_def map_of_store_name
      split: resolution.splits option.splits)

subsection \<open>C5: when initialization fails\<close>

text \<open>
  C5 as the specification states it: initialization fails if and only if \<^verbatim>\<open>utils\<close>
  cannot be resolved or lacks one of the two names, and in no other way. A \<^verbatim>\<open>utils\<close>
  that exists, defines both \<^verbatim>\<open>set_seed\<close> and \<^verbatim>\<open>get_logger\<close> and then raises while it is
  loaded makes the initialization of the package fail as well.
\<close>

theorem raising_utils_counterexample:
  "\<not> succeeded (import_package raising_utils ''src'' fresh_namespace) \<and>
   resolvable (raising_utils (sibling ''src'' ''utils'')) \<and>
   module_defines (raising_utils (sibling ''src'' ''utils'')) ''set_seed'' \<and>
   module_defines (raising_utils (sibling ''src'' ''utils'')) ''get_logger''"
  by (simp add: run_defs input_defs)

text \<open>
  C5, amended: initialization of the package, in the namespace that the import system
  has prepared for it, fails if and only if the sibling module \<^verbatim>\<open>utils\<close> cannot be
  resolved, or raises while it is loaded, or lacks one of \<^verbatim>\<open>set_seed\<close>,
  \<^verbatim>\<open>get_logger\<close>. There is no other failure: the exception raised is
  \<^verbatim>\<open>ModuleNotFoundError\<close> for \<^verbatim>\<open>utils\<close>, or the exception that the body of \<^verbatim>\<open>utils\<close>
  raised, or the \<^verbatim>\<open>ImportError\<close> for the first missing name.
\<close>

theorem init_fails_iff:
  assumes "prepared_for pkg ns0"
  shows
  "(\<not> succeeded (import_package I pkg ns0)) =
     (\<not> resolvable (I (sibling pkg ''utils''))
      \<or> load_failed (I (sibling pkg ''utils''))
      \<or> \<not> module_defines (I (sibling pkg ''utils'')) ''set_seed''
      \<or> \<not> module_defines (I (sibling pkg ''utils'')) ''get_logger'')
   \<and> raised (import_package I pkg ns0) =
     (case I (sibling pkg ''utils'') of
        NotFound \<Rightarrow> Some (ModuleNotFoundError (sibling pkg ''utils''))
      | LoadFailed e m \<Rightarrow> Some e
      | _ \<Rightarrow>
         if \<not> module_defines (I (sibling pkg ''utils'')) ''set_seed''
           then Some (ImportError ''set_seed'' (sibling pkg ''utils''))
         else if \<not> module_defines (I (sibling pkg ''utils'')) ''get_logger''
           then Some (ImportError ''get_logger'' (sibling pkg ''utils''))
         else None)"
  by (cases "I (sibling pkg ''utils'')")
     (auto simp: import_package_def init_body_def split: option.splits)

text \<open>
  The amended C5 where there is no \<^verbatim>\<open>utils\<close> module at all.
\<close>

theorem init_fails_iff_witness:
  "prepared_for ''src'' fresh_namespace \<and>
   \<not> resolvable (no_utils (sibling ''src'' ''utils'')) \<and>
   \<not> succeeded (import_package no_utils ''src'' fresh_namespace) \<and>
   raised (import_package no_utils ''src'' fresh_namespace) =
     Some (ModuleNotFoundError ''src.utils'')"
proof -
  have h0: "prepared_for ''src'' fresh_namespace"
    by (simp add: prepared_for_def fresh_namespace_def)
  have h: "\<not> resolvable (no_utils (sibling ''src'' ''utils''))"
    by (simp add: no_utils_def)
  have u: "no_utils (sibling ''src'' ''utils'') = NotFound"
    by (simp add: no_utils_def)
  have q: "sibling ''src'' ''utils'' = ''src.utils''"
    by (simp add: sibling_def)
  from init_fails_iff [OF h0, of no_utils] h0 h u q
  show ?thesis by simp
qed

subsection \<open>C6: re-export\<close>

text \<open>
  C6: after a successful import, \<^verbatim>\<open>set_seed\<close> and \<^verbatim>\<open>get_logger\<close> in the package
  namespace are bound to the very objects that the module \<^verbatim>\<open>utils\<close> binds to these
  names.
\<close>

theorem reexport_same_objects:
  "succeeded (import_package I pkg ns0) \<Longrightarrow>
   provides (I (sibling pkg ''utils'')) ''set_seed'' \<and>
   provides (I (sibling pkg ''utils'')) ''get_logger'' \<and>
   map_of (final_ns (import_package I pkg ns0)) ''set_seed'' =
     module_attr (I (sibling pkg ''utils'')) ''set_seed'' \<and>
   map_of (final_ns (import_package I pkg ns0)) ''get_logger'' =
     module_attr (I (sibling pkg ''utils'')) ''get_logger''"
  by (cases "I (sibling pkg ''utils'')")
     (auto simp: provides_def import_package_def init_body_def map_of_store_name
       split: option.splits)

text \<open>
  C6 on a first import of the package \<^verbatim>\<open>src\<close>: the two functions of \<^verbatim>\<open>utils\<close> are
  the objects 10 and 11.
\<close>

theorem reexport_same_objects_witness:
  "succeeded (import_package first_import ''src'' fresh_namespace) \<and>
   map_of (final_ns (import_package first_import ''src'' fresh_namespace)) ''set_seed'' =
     Some (Obj 10) \<and>
   map_of (final_ns (import_package first_import ''src'' fresh_namespace)) ''get_logger'' =
     Some (Obj 11)"
proof -
  have h: "succeeded (import_package first_import ''src'' fresh_namespace)"
    by (simp add: run_defs input_defs)
  have a: "module_attr (first_import (sibling ''src'' ''utils'')) ''set_seed'' = Some (Obj 10)"
    by (simp add: sibling_def input_defs)
  have b: "module_attr (first_import (sibling ''src'' ''utils'')) ''get_logger'' = Some (Obj 11)"
    by (simp add: sibling_def input_defs)
  from reexport_same_objects [OF h] h a b show ?thesis by simp
qed

subsection \<open>C7: the lines of the file\<close>

text \<open>
  C7 as the specification states it: 13 lines, of which 8 docstring lines, 2 metadata
  assignments, 1 import and 1 export-list assignment. The file has 14 lines and its
  docstring spans 6 of them.
\<close>

theorem line_budget_counterexample:
  "\<not> (length source_lines = 13 \<and> count_kind DocstringLine = 8 \<and>
      count_kind MetadataLine = 2 \<and> count_kind ImportLine = 1 \<and>
      count_kind ExportLine = 1)"
  by (simp add: count_kind_def classify_source_lines)

text \<open>
  C7, amended: the source file is 14 lines long, of which 6 lines are the docstring,
  2 are metadata assignments, 1 is an import, 1 is the export-list assignment, 1 is a
  comment and 3 are blank.
\<close>

theorem line_budget:
  "length source_lines = 14 \<and> count_kind DocstringLine = 6 \<and>
   count_kind MetadataLine = 2 \<and> count_kind ImportLine = 1 \<and>
   count_kind ExportLine = 1 \<and> count_kind CommentLine = 1 \<and>
   count_kind BlankLine = 3 \<and> count_kind OtherLine = 0"
  by (simp add: count_kind_def classify_source_lines) (simp add: source_lines_def)

subsection \<open>C8: one import, straight-line code\<close>



subsection \<open>C9: what kind of objects the body binds\<close>

text \<open>
  C9 as the specification states it: every binding that initialization creates, other
  than the two re-exported names, is an immutable string. The binding of \<^verbatim>\<open>__all__\<close> is
  created by line 14, is not one of the two re-exported names, and holds a list.
\<close>

theorem only_strings_counterexample:
  "created fresh_namespace (import_package first_import ''src'' fresh_namespace) ''__all__'' \<and>
   ''__all__'' \<notin> {''set_seed'', ''get_logger''} \<and>
   \<not> is_str (map_of (final_ns (import_package first_import ''src'' fresh_namespace)) ''__all__'')"
  by (simp add: created_def run_defs input_defs)

text \<open>
  C9, amended: every module-level binding created by package initialization, other
  than the two re-exported function names, is an immutable string constant
  (\<^verbatim>\<open>__doc__\<close>, \<^verbatim>\<open>__version__\<close>, \<^verbatim>\<open>__author__\<close>), except the export list \<^verbatim>\<open>__all__\<close>,
  a mutable list of the two names, and the submodule bindings that the import system
  places in the package while the import runs (\<^verbatim>\<open>utils\<close>, and any sibling that loading
  \<^verbatim>\<open>utils\<close> pulls in), which hold module objects.
\<close>

theorem created_bindings:
  "created ns0 (import_package I pkg ns0) k \<Longrightarrow>
   k \<in> {''set_seed'', ''get_logger''}
   \<or> k \<in> {''__doc__'', ''__version__'', ''__author__''}
     \<and> is_str (map_of (final_ns (import_package I pkg ns0)) k)
   \<or> k = ''__all__''
     \<and> map_of (final_ns (import_package I pkg ns0)) k =
         Some (ListV [Str ''set_seed'', Str ''get_logger''])
   \<or> is_module (map_of (final_ns (import_package I pkg ns0)) k)"
  by (cases "I (sibling pkg ''utils'')")
     (auto simp: created_def import_package_def init_body_def map_of_store_name
       split: option.splits if_splits)

text \<open>
  The amended C9 at the binding of \<^verbatim>\<open>__version__\<close>, on a first import of \<^verbatim>\<open>src\<close>.
\<close>

theorem created_bindings_witness:
  "created fresh_namespace (import_package first_import ''src'' fresh_namespace) ''__version__'' \<and>
   is_str (map_of (final_ns (import_package first_import ''src'' fresh_namespace)) ''__version__'')"
proof -
  have h: "created fresh_namespace (import_package first_import ''src'' fresh_namespace) ''__version__''"
    by (simp add: created_def run_defs input_defs)
  have nm: "\<not> is_module
      (map_of (final_ns (import_package first_import ''src'' fresh_namespace)) ''__version__'')"
    by (simp add: run_defs input_defs)
  from created_bindings [OF h] nm
  have s: "is_str
      (map_of (final_ns (import_package first_import ''src'' fresh_namespace)) ''__version__'')"
    by simp
  show ?thesis by (rule conjI [OF h s])
qed

subsection \<open>C10: the namespace after a failed import\<close>




end
